theory Spec2Isabelle
  imports Main "HOL-Library.Word" "HOL-Library.AList"
begin

section \<open>JavaScript values used by the scanner\<close>

text \<open>
  A JavaScript object is a record whose fields are optional: \<open>None\<close> is a property that is
  absent (\<open>undefined\<close> or \<open>null\<close>). An instant is the number of milliseconds since the
  epoch, the value of a \<open>Date\<close>; the textual forms of a date that the program passes
  around (the \<open>valid_to\<close> text of the handshake, the rendering by \<open>moment\<close>,
  \<open>toISOString\<close>) are identified with the instant they denote.
\<close>

type_synonym byte = "8 word"
type_synonym instant = int

text \<open>Truthiness of a possibly absent string, and \<open>a || b\<close> on such values.\<close>

definition truthy :: "string option \<Rightarrow> bool" where
  "truthy v = (case v of None \<Rightarrow> False | Some s \<Rightarrow> s \<noteq> [])"

definition js_or :: "string option \<Rightarrow> string option \<Rightarrow> string option" where
  "js_or a b = (if truthy a then a else b)"

text \<open>\<open>a || b\<close> on values for which only absence is falsy (instants, objects).\<close>

definition js_or_def :: "'a option \<Rightarrow> 'a option \<Rightarrow> 'a option" where
  "js_or_def a b = (case a of None \<Rightarrow> b | Some x \<Rightarrow> Some x)"

text \<open>A value inside a template literal: an absent one prints as \<open>undefined\<close>.\<close>

definition to_text :: "string option \<Rightarrow> string" where
  "to_text v = (case v of None \<Rightarrow> ''undefined'' | Some s \<Rightarrow> s)"

text \<open>\<open>Array.prototype.join\<close>.\<close>

fun join :: "string \<Rightarrow> string list \<Rightarrow> string" where
  "join sep [] = []"
| "join sep [x] = x"
| "join sep (x # y # ys) = x @ sep @ join sep (y # ys)"

text \<open>Decimal rendering of a number inside a template literal.\<close>

definition digit_char :: "nat \<Rightarrow> char" where
  "digit_char d = ''0123456789abcdef'' ! (d mod 16)"

fun show_nat :: "nat \<Rightarrow> string" where
  "show_nat n = (if n < 10 then [digit_char n] else show_nat (n div 10) @ [digit_char (n mod 10)])"

declare show_nat.simps [simp del]

section \<open>The certificate model of the decoder\<close>

text \<open>An attribute of a distinguished name, as the decoder library exposes it.\<close>

record dn_attr =
  a_shortName :: "string option"
  a_name :: "string option"
  a_value :: string

text \<open>
  A distinguished name: its \<open>attributes\<close> array (possibly missing) and whether the object
  has the \<open>getField\<close> method.
\<close>

record forge_dn =
  dn_attributes :: "dn_attr list option"
  dn_hasGetField :: bool

record key_usage_ext =
  ku_digitalSignature :: bool
  ku_nonRepudiation :: bool
  ku_keyEncipherment :: bool
  ku_dataEncipherment :: bool
  ku_keyAgreement :: bool
  ku_keyCertSign :: bool
  ku_cRLSign :: bool

text \<open>
  The certificate object built by \<open>convertToPem\<close>. \<open>fc_der\<close> is the result of
  \<open>forge.asn1.toDer(forge.pki.certificateToAsn1(cert)).getBytes()\<close>, \<open>None\<close> when that
  call throws; \<open>fc_keyUsage\<close> is \<open>cert.getExtension('keyUsage')\<close>.
\<close>

record forge_cert =
  fc_host :: "string option"
  fc_port :: "nat option"
  fc_subject :: "forge_dn option"
  fc_issuer :: "forge_dn option"
  fc_notBefore :: instant
  fc_notAfter :: instant
  fc_algorithmOid :: "string option"
  fc_signatureOid :: "string option"
  fc_keyUsage :: "key_usage_ext option"
  fc_der :: "byte list option"

text \<open>
  The certificate data object: the union of the properties of the object literals the
  program builds (the decoder's record, the handshake's record, the scanner's error
  record, and the error entry of the scan API, the only one with \<open>hostname\<close>).
\<close>

record cert_data =
  host :: "string option"
  hostname :: "string option"
  port :: "nat option"
  subject :: "string option"
  issuer :: "string option"
  commonName :: "string option"
  organization :: "string option"
  validFrom :: "instant option"
  validTo :: "instant option"
  fingerprint :: "string option"
  serialNumber :: "string option"
  signatureAlgorithm :: "string option"
  selfSigned :: "bool option"
  daysRemaining :: "int option"
  keyUsage :: "string option"
  status :: string
  error :: "string option"
  lastScanned :: instant

section \<open>formatDN and parseCertificate (src/modules/scanner.js)\<close>

definition attr_pair :: "dn_attr \<Rightarrow> string" where
  "attr_pair attr = to_text (js_or (a_shortName attr) (a_name attr)) @ ''='' @ a_value attr"

definition formatDN :: "forge_dn option \<Rightarrow> string" where
  "formatDN dn =
     (case dn of
        None \<Rightarrow> ''Unknown''
      | Some d \<Rightarrow>
          (case dn_attributes d of
             None \<Rightarrow> ''Unknown''
           | Some attrs \<Rightarrow> join '', '' (map attr_pair attrs)))"

text \<open>
  \<open>x && typeof x === 'object' ? formatDN(x) : null\<close> followed by \<open>|| 'Unknown'\<close>: the
  subject and issuer strings of the decoder's record.
\<close>

definition dn_string :: "forge_dn option \<Rightarrow> string" where
  "dn_string dn =
     (let fromRaw = (case dn of None \<Rightarrow> None | Some d \<Rightarrow> Some (formatDN (Some d)))
      in to_text (js_or fromRaw (Some ''Unknown'')))"

text \<open>
  \<open>dn.getField(sn)\<close> of the decoder library: the first attribute whose short name is
  \<open>sn\<close>; it throws (\<open>Inl\<close>) when the attribute array is missing.
\<close>

definition getField :: "forge_dn \<Rightarrow> string \<Rightarrow> unit + dn_attr option" where
  "getField d sn =
     (case dn_attributes d of
        None \<Rightarrow> Inl ()
      | Some attrs \<Rightarrow> Inr (find (\<lambda>a. a_shortName a = Some sn) attrs))"

text \<open>
  The extraction of the common name and of the organization: \<open>getField\<close> first, then a
  search by long or short name; an exception leaves the empty string.
\<close>

definition subject_field :: "forge_dn option \<Rightarrow> string \<Rightarrow> string \<Rightarrow> string" where
  "subject_field dn sn ln =
     (case dn of
        None \<Rightarrow> []
      | Some d \<Rightarrow>
          (let byName = (case dn_attributes d of
                           None \<Rightarrow> []
                         | Some attrs \<Rightarrow>
                             (case find (\<lambda>a. a_name a = Some ln \<or> a_shortName a = Some sn) attrs of
                                None \<Rightarrow> []
                              | Some a \<Rightarrow> a_value a))
           in if dn_hasGetField d then
                (case getField d sn of
                   Inl _ \<Rightarrow> []
                 | Inr (Some a) \<Rightarrow> a_value a
                 | Inr None \<Rightarrow> byName)
              else byName))"

definition oidMap :: "(string \<times> string) list" where
  "oidMap =
     [(''1.2.840.113549.1.1.1'', ''RSA''),
      (''1.2.840.113549.1.1.2'', ''MD2withRSA''),
      (''1.2.840.113549.1.1.4'', ''MD5withRSA''),
      (''1.2.840.113549.1.1.5'', ''SHA1withRSA''),
      (''1.2.840.113549.1.1.11'', ''SHA256withRSA''),
      (''1.2.840.113549.1.1.12'', ''SHA384withRSA''),
      (''1.2.840.113549.1.1.13'', ''SHA512withRSA''),
      (''1.2.840.10045.4.3.2'', ''ECDSA with SHA256''),
      (''1.2.840.10045.4.3.3'', ''ECDSA with SHA384'')]"

definition signature_name :: "forge_cert \<Rightarrow> string" where
  "signature_name cert =
     (if truthy (fc_algorithmOid cert) then
        (let oid = to_text (fc_algorithmOid cert)
         in to_text (js_or (map_of oidMap oid) (Some (''OID: '' @ oid))))
      else if truthy (fc_signatureOid cert) then ''OID: '' @ to_text (fc_signatureOid cert)
      else ''unknown'')"

definition key_usage_labels :: "key_usage_ext option \<Rightarrow> string list" where
  "key_usage_labels ext =
     (case ext of
        None \<Rightarrow> []
      | Some k \<Rightarrow>
          (if ku_digitalSignature k then [''Digital Signature''] else []) @
          (if ku_nonRepudiation k then [''Non Repudiation''] else []) @
          (if ku_keyEncipherment k then [''Key Encipherment''] else []) @
          (if ku_dataEncipherment k then [''Data Encipherment''] else []) @
          (if ku_keyAgreement k then [''Key Agreement''] else []) @
          (if ku_keyCertSign k then [''Certificate Signing''] else []) @
          (if ku_cRLSign k then [''CRL Signing''] else []))"

text \<open>\<open>toHex\<close>: two lower-case hexadecimal digits for each byte.\<close>

definition hex_byte :: "byte \<Rightarrow> string" where
  "hex_byte b = [digit_char (unat b div 16), digit_char (unat b mod 16)]"

definition toHex :: "byte list \<Rightarrow> string" where
  "toHex bs = concat (map hex_byte bs)"

text \<open>\<open>s.match(/.{2}/g)\<close>: the successive pairs of characters, \<open>None\<close> (null) when there is none.\<close>

fun pairs :: "string \<Rightarrow> string list" where
  "pairs (a # b # cs) = [a, b] # pairs cs"
| "pairs cs = []"

definition match_pairs :: "string \<Rightarrow> string list option" where
  "match_pairs s = (if pairs s = [] then None else Some (pairs s))"

text \<open>
  The fingerprint: the digest of the DER bytes in hexadecimal, cut in pairs joined by
  colons. \<open>digest\<close> stands for \<open>forge.md.sha256\<close>, a library function. An exception
  (the encoding throws, or \<open>match\<close> returns null) gives \<open>'Could not calculate'\<close>.
\<close>

definition fingerprint_of :: "(byte list \<Rightarrow> byte list) \<Rightarrow> forge_cert \<Rightarrow> string" where
  "fingerprint_of digest cert =
     (case fc_der cert of
        None \<Rightarrow> ''Could not calculate''
      | Some der \<Rightarrow>
          (case match_pairs (toHex (digest der)) of
             None \<Rightarrow> ''Could not calculate''
           | Some ps \<Rightarrow> join '':'' ps))"

definition msPerDay :: int where
  "msPerDay = 1000 * 60 * 60 * 24"

definition classify :: "int \<Rightarrow> string" where
  "classify d = (if d < 0 then ''expired'' else if d < 30 then ''warning'' else ''valid'')"

definition parseCertificate :: "(byte list \<Rightarrow> byte list) \<Rightarrow> instant \<Rightarrow> forge_cert \<Rightarrow> cert_data" where
  "parseCertificate digest now cert =
     (let days = (fc_notAfter cert - now) div msPerDay;
          subj = dn_string (fc_subject cert);
          iss = dn_string (fc_issuer cert);
          cn = subject_field (fc_subject cert) ''CN'' ''commonName'';
          org = subject_field (fc_subject cert) ''O'' ''organizationName''
      in \<lparr> host = js_or (fc_host cert) (Some cn),
           hostname = None,
           port = (case fc_port cert of
                     None \<Rightarrow> Some 443
                   | Some n \<Rightarrow> if n = 0 then Some 443 else Some n),
           subject = Some subj,
           issuer = Some iss,
           commonName = Some cn,
           organization = Some org,
           validFrom = Some (fc_notBefore cert),
           validTo = Some (fc_notAfter cert),
           fingerprint = Some (fingerprint_of digest cert),
           serialNumber = None,
           signatureAlgorithm = Some (signature_name cert),
           selfSigned = Some (iss = subj),
           daysRemaining = Some days,
           keyUsage = Some (join '', '' (key_usage_labels (fc_keyUsage cert))),
           status = classify days,
           error = None,
           lastScanned = now \<rparr>)"

section \<open>The handshake's certificate and getCertificate\<close>

text \<open>
  A subject or issuer of the handshake's certificate: a string, an ordinary object from
  field names to values (its own properties in insertion order), or an object without a
  prototype. The TLS layer builds the subject and the issuer as objects without a
  prototype, for which \<open>x instanceof Object\<close> is false.
\<close>

datatype raw_dn =
    DnText string
  | DnObject "(string \<times> string) list"
  | DnBare "(string \<times> string) list"

text \<open>The object returned by \<open>socket.getPeerCertificate(true)\<close>.\<close>

record peer_cert =
  p_subject :: "raw_dn option"
  p_issuer :: "raw_dn option"
  p_valid_from :: "instant option"
  p_validFrom :: "instant option"
  p_valid_to :: "instant option"
  p_validTo :: "instant option"
  p_fingerprint :: "string option"
  p_serialNumber :: "string option"
  p_raw :: "byte list option"

text \<open>
  \<open>s.match(new RegExp(`${fieldName}=([^,]+)`))\<close>: the leftmost place where the field
  name and \<open>=\<close> are followed by at least one character other than a comma; the group is
  the longest run of such characters.
\<close>

fun regex_field :: "string \<Rightarrow> string \<Rightarrow> string option" where
  "regex_field fieldName [] = None"
| "regex_field fieldName (c # cs) =
     (let k = fieldName @ ''='';
          grp = takeWhile (\<lambda>x. x \<noteq> CHR '','') (drop (length k) (c # cs))
      in if take (length k) (c # cs) = k \<and> grp \<noteq> [] then Some grp
         else regex_field fieldName cs)"

definition extractSubjectField :: "peer_cert \<Rightarrow> string \<Rightarrow> string" where
  "extractSubjectField cert fieldName =
     (case p_subject cert of
        None \<Rightarrow> []
      | Some (DnText s) \<Rightarrow>
          (if s = [] then []
           else (case regex_field fieldName s of None \<Rightarrow> [] | Some g \<Rightarrow> g))
      | Some (DnObject kvs) \<Rightarrow> to_text (js_or (map_of kvs fieldName) (Some []))
      | Some (DnBare kvs) \<Rightarrow> [])"

definition formatRawIssuer :: "raw_dn option \<Rightarrow> string" where
  "formatRawIssuer iss =
     (case iss of
        None \<Rightarrow> ''Unknown''
      | Some (DnText s) \<Rightarrow> (if s = [] then ''Unknown'' else s)
      | Some (DnObject kvs) \<Rightarrow>
          (if truthy (map_of kvs ''O'') then to_text (map_of kvs ''O'')
           else if truthy (map_of kvs ''CN'') then to_text (map_of kvs ''CN'')
           else (let fieldPairs = map (\<lambda>(k, v). k @ ''='' @ v) (filter (\<lambda>(k, v). v \<noteq> []) kvs)
                 in to_text (js_or (Some (join '', '' fieldPairs)) (Some ''Unknown''))))
      | Some (DnBare kvs) \<Rightarrow> ''Unknown'')"

definition calculateDaysRemaining :: "instant \<Rightarrow> instant option \<Rightarrow> int" where
  "calculateDaysRemaining now vt =
     (case vt of None \<Rightarrow> 0 | Some expiryDate \<Rightarrow> (expiryDate - now) div msPerDay)"

text \<open>The object literal \<open>rawCertData\<close> of getCertificate.\<close>

definition rawCertData :: "instant \<Rightarrow> string \<Rightarrow> nat \<Rightarrow> peer_cert \<Rightarrow> cert_data" where
  "rawCertData now h p cert =
     \<lparr> host = Some h,
       hostname = None,
       port = Some p,
       subject = None,
       issuer = Some (formatRawIssuer (p_issuer cert)),
       commonName = Some (extractSubjectField cert ''CN''),
       organization = Some (extractSubjectField cert ''O''),
       validFrom = js_or_def (p_valid_from cert) (p_validFrom cert),
       validTo = js_or_def (p_valid_to cert) (p_validTo cert),
       fingerprint = js_or (p_fingerprint cert) (Some ''Unknown''),
       serialNumber = js_or (p_serialNumber cert) (Some ''Unknown''),
       signatureAlgorithm = None,
       selfSigned = None,
       daysRemaining = Some (calculateDaysRemaining now (js_or_def (p_valid_to cert) (p_validTo cert))),
       keyUsage = None,
       status = ''valid'',
       error = None,
       lastScanned = now \<rparr>"

text \<open>
  The object literal \<open>combinedData\<close>: the decoder's record spread first, the handshake's
  record spread over it (each of its twelve properties replaces the decoder's), then the
  seven properties written out.
\<close>

definition combinedData :: "string \<Rightarrow> nat \<Rightarrow> cert_data \<Rightarrow> cert_data \<Rightarrow> cert_data" where
  "combinedData h p parsedCert raw =
     \<lparr> host = Some h,
       hostname = hostname parsedCert,
       port = Some p,
       subject = subject parsedCert,
       issuer = js_or (issuer raw) (issuer parsedCert),
       commonName = js_or (commonName raw) (commonName parsedCert),
       organization = js_or (organization raw) (organization parsedCert),
       validFrom = js_or_def (validFrom raw) (validFrom parsedCert),
       validTo = js_or_def (validTo raw) (validTo parsedCert),
       fingerprint = fingerprint raw,
       serialNumber = serialNumber raw,
       signatureAlgorithm = signatureAlgorithm parsedCert,
       selfSigned = selfSigned parsedCert,
       daysRemaining = daysRemaining raw,
       keyUsage = keyUsage parsedCert,
       status = status raw,
       error = error parsedCert,
       lastScanned = lastScanned raw \<rparr>"

text \<open>
  What a connection attempt comes to: the socket's \<open>error\<close> event, its \<open>timeout\<close>
  event, the watchdog finding the socket still connecting, \<open>tls.connect\<close> throwing, or
  the handshake callback with the peer certificate (\<open>None\<close>: null or an empty object).
\<close>

datatype tls_outcome =
    SocketError string
  | SocketTimeout
  | Stalled
  | ConnectThrows string
  | Connected "peer_cert option"

text \<open>
  The world outside the program: the clock, the network, and the two library functions of
  the decoder (\<open>forge.pki.certificateFromAsn1 \<circ> forge.asn1.fromDer\<close>, which throws on
  malformed bytes, and \<open>forge.md.sha256\<close>).
\<close>

record env =
  e_now :: instant
  e_connect :: "string \<Rightarrow> nat \<Rightarrow> tls_outcome"
  e_fromDer :: "byte list \<Rightarrow> string + forge_cert"
  e_sha256 :: "byte list \<Rightarrow> byte list"

text \<open>\<open>convertToPem\<close>; the result is a certificate object, or the message of the exception.\<close>

definition convertToPem :: "env \<Rightarrow> byte list option \<Rightarrow> string + forge_cert" where
  "convertToPem e rawCert =
     (case rawCert of
        None \<Rightarrow> Inl ''No raw certificate data''
      | Some bytes \<Rightarrow> e_fromDer e bytes)"

text \<open>getCertificate: \<open>Inr\<close> is the value the promise resolves with, \<open>Inl\<close> the message of
  the error it rejects with.\<close>

definition getCertificate :: "env \<Rightarrow> string \<Rightarrow> nat \<Rightarrow> nat \<Rightarrow> string + cert_data" where
  "getCertificate e h p timeout =
     (case e_connect e h p of
        ConnectThrows m \<Rightarrow> Inl (''Failed to establish secure connection: '' @ m)
      | SocketError m \<Rightarrow> Inl (''Connection error: '' @ m)
      | SocketTimeout \<Rightarrow> Inl (''Connection timeout after '' @ show_nat timeout @ ''ms'')
      | Stalled \<Rightarrow> Inl ''Connection stalled - forcibly closed''
      | Connected None \<Rightarrow> Inl ''No certificate found''
      | Connected (Some cert) \<Rightarrow>
          (let raw = rawCertData (e_now e) h p cert
           in case p_raw cert of
                None \<Rightarrow> Inr raw
              | Some bytes \<Rightarrow>
                  (case convertToPem e (Some bytes) of
                     Inl forgeErr \<Rightarrow> Inr raw
                   | Inr forgeCert \<Rightarrow>
                       Inr (combinedData h p (parseCertificate (e_sha256 e) (e_now e) forgeCert) raw))))"

section \<open>scanHost and scanHosts\<close>

definition errorRecord :: "instant \<Rightarrow> string \<Rightarrow> nat option \<Rightarrow> string \<Rightarrow> cert_data" where
  "errorRecord now h p msg =
     \<lparr> host = Some h, hostname = None, port = p, subject = None, issuer = None, commonName = None,
       organization = None, validFrom = None, validTo = None, fingerprint = None,
       serialNumber = None, signatureAlgorithm = None, selfSigned = None,
       daysRemaining = None, keyUsage = None, status = ''error'', error = Some msg,
       lastScanned = now \<rparr>"

text \<open>
  The object one turn of scanHost's loop pushes onto \<open>results\<close>: the certificate
  data, or in the \<open>catch\<close> the error record with the message of the exception.
\<close>

definition scanPort :: "env \<Rightarrow> string \<Rightarrow> nat \<Rightarrow> nat \<Rightarrow> cert_data" where
  "scanPort e h timeout p =
     (case getCertificate e h p timeout of
        Inr certificate \<Rightarrow> certificate
      | Inl msg \<Rightarrow> errorRecord (e_now e) h (Some p) msg)"

fun scanHost_loop :: "env \<Rightarrow> string \<Rightarrow> nat \<Rightarrow> nat list \<Rightarrow> cert_data list \<Rightarrow> cert_data list" where
  "scanHost_loop e h timeout [] results = results"
| "scanHost_loop e h timeout (p # ps) results =
     scanHost_loop e h timeout ps (results @ [scanPort e h timeout p])"

text \<open>
  scanHost. Nothing outside the \<open>try\<close> of its loop throws on a host string and an array
  of ports, so the result is always \<open>Inr\<close>; the sum keeps the \<open>catch\<close> of scanHosts in
  the model.
\<close>

definition scanHost :: "env \<Rightarrow> string \<Rightarrow> nat list \<Rightarrow> nat \<Rightarrow> string + cert_data list" where
  "scanHost e h ports timeout = Inr (scanHost_loop e h timeout ports [])"

definition first_port :: "nat list \<Rightarrow> nat option" where
  "first_port ports = (case ports of [] \<Rightarrow> None | p # _ \<Rightarrow> Some p)"

fun scanHosts_loop :: "env \<Rightarrow> nat list \<Rightarrow> nat \<Rightarrow> string list \<Rightarrow> cert_data list \<Rightarrow> cert_data list" where
  "scanHosts_loop e ports timeout [] results = results"
| "scanHosts_loop e ports timeout (h # hs) results =
     scanHosts_loop e ports timeout hs
       (case (if CHR ''/'' \<in> set h then scanHost e h ports timeout
              else if CHR ''-'' \<in> set h then scanHost e h ports timeout
              else scanHost e h ports timeout) of
          Inr hostResults \<Rightarrow> results @ hostResults
        | Inl msg \<Rightarrow> results @ [errorRecord (e_now e) h (first_port ports) msg])"

definition scanHosts :: "env \<Rightarrow> string list \<Rightarrow> nat list \<Rightarrow> nat \<Rightarrow> cert_data list" where
  "scanHosts e hosts ports timeout = scanHosts_loop e ports timeout hosts []"

section \<open>The database module\<close>

datatype exn = ScanNotFound nat | TypeError string | SqliteError string

definition message :: "exn \<Rightarrow> string" where
  "message x =
     (case x of
        ScanNotFound n \<Rightarrow> ''Scheduled scan with ID '' @ show_nat n @ '' not found''
      | TypeError m \<Rightarrow> m
      | SqliteError m \<Rightarrow> m)"

text \<open>A row of the table \<open>certificates\<close>; \<open>host\<close> and \<open>port\<close> are NOT NULL.\<close>

record cert_row =
  r_id :: nat
  r_host :: string
  r_port :: nat
  r_subject :: "string option"
  r_issuer :: "string option"
  r_valid_from :: "instant option"
  r_valid_to :: "instant option"
  r_fingerprint :: "string option"
  r_signature_algorithm :: "string option"
  r_self_signed :: bool
  r_status :: string
  r_last_scanned :: instant
  r_days_remaining :: "int option"

text \<open>A row of the table \<open>scheduled_scans\<close>.\<close>

record scan_row =
  s_id :: nat
  s_name :: string
  s_hosts :: "string list"
  s_ports :: "nat list"
  s_frequency :: string
  s_last_run :: "instant option"
  s_next_run :: "instant option"
  s_active :: bool

text \<open>The two tables; \<open>cert_seq\<close> is the AUTOINCREMENT sequence of \<open>certificates\<close>.\<close>

record database =
  certificates :: "cert_row list"
  cert_seq :: nat
  scheduled_scans :: "scan_row list"

text \<open>
  saveCertificate: \<open>INSERT OR REPLACE\<close> under \<open>UNIQUE(host, port)\<close>. A missing host or
  port violates NOT NULL and the promise rejects; otherwise the row of the same pair is
  deleted and the new row inserted. The result is the error or the new row id.
\<close>

definition saveCertificate :: "database \<Rightarrow> cert_data \<Rightarrow> (exn + nat) \<times> database" where
  "saveCertificate d certData =
     (case (host certData, port certData) of
        (None, _) \<Rightarrow>
          (Inl (SqliteError ''SQLITE_CONSTRAINT: NOT NULL constraint failed: certificates.host''), d)
      | (Some h, None) \<Rightarrow>
          (Inl (SqliteError ''SQLITE_CONSTRAINT: NOT NULL constraint failed: certificates.port''), d)
      | (Some h, Some p) \<Rightarrow>
          (let row = \<lparr> r_id = Suc (cert_seq d), r_host = h, r_port = p,
                       r_subject = subject certData, r_issuer = issuer certData,
                       r_valid_from = validFrom certData, r_valid_to = validTo certData,
                       r_fingerprint = fingerprint certData,
                       r_signature_algorithm = signatureAlgorithm certData,
                       r_self_signed = (selfSigned certData = Some True),
                       r_status = status certData,
                       r_last_scanned = lastScanned certData,
                       r_days_remaining = daysRemaining certData \<rparr>
           in (Inr (r_id row),
               d\<lparr> certificates :=
                     filter (\<lambda>r. \<not> (r_host r = h \<and> r_port r = p)) (certificates d) @ [row],
                   cert_seq := Suc (cert_seq d) \<rparr>)))"

text \<open>The stored rows of one (host, port) pair.\<close>

definition rows_of :: "database \<Rightarrow> string \<Rightarrow> nat \<Rightarrow> cert_row list" where
  "rows_of d h p = filter (\<lambda>r. r_host r = h \<and> r_port r = p) (certificates d)"

text \<open>
  The object a scheduled scan is handled as. The rows of the database carry the column
  names \<open>last_run\<close> and \<open>next_run\<close>; the objects built by the routes carry \<open>lastRun\<close> and
  \<open>nextRun\<close>.
\<close>

record scan_obj =
  so_id :: nat
  so_name :: "string option"
  so_hosts :: "string list"
  so_ports :: "nat list"
  so_frequency :: "string option"
  so_active :: bool
  so_lastRun :: "instant option"
  so_nextRun :: "instant option"
  so_last_run :: "instant option"
  so_next_run :: "instant option"

text \<open>The object \<open>db.get('SELECT * ...')\<close> yields for a row, after the JSON fields are parsed.\<close>

definition row_object :: "scan_row \<Rightarrow> scan_obj" where
  "row_object r =
     \<lparr> so_id = s_id r, so_name = Some (s_name r), so_hosts = s_hosts r, so_ports = s_ports r,
       so_frequency = Some (s_frequency r), so_active = s_active r,
       so_lastRun = None, so_nextRun = None,
       so_last_run = s_last_run r, so_next_run = s_next_run r \<rparr>"

definition getScheduledScanById :: "database \<Rightarrow> nat \<Rightarrow> scan_obj option" where
  "getScheduledScanById d i = map_option row_object (find (\<lambda>r. s_id r = i) (scheduled_scans d))"

text \<open>
  updateScheduledScanTimes: \<open>UPDATE scheduled_scans SET last_run = ?, next_run = ? WHERE
  id = ?\<close>. An argument that is null or undefined stores NULL (the database driver
  leaves the placeholder of an undefined argument unbound, which SQLite reads as NULL).
\<close>

definition updateScheduledScanTimes ::
    "database \<Rightarrow> nat \<Rightarrow> instant option \<Rightarrow> instant option \<Rightarrow> database" where
  "updateScheduledScanTimes d i lastRun nextRun =
     d\<lparr> scheduled_scans :=
          map (\<lambda>r. if s_id r = i then r\<lparr> s_last_run := lastRun, s_next_run := nextRun \<rparr> else r)
            (scheduled_scans d) \<rparr>"

section \<open>The scan API: POST /api/scan\<close>

record processed =
  pr_id :: nat
  pr_hostname :: string
  pr_port :: nat
  pr_issuer :: string
  pr_subject :: string
  pr_commonName :: string
  pr_organization :: string
  pr_validFrom :: instant
  pr_validTo :: instant
  pr_fingerprint :: string
  pr_signatureAlgorithm :: string
  pr_selfSigned :: bool
  pr_daysRemaining :: int
  pr_keyUsage :: string
  pr_status :: string
  pr_lastScanned :: instant
  pr_error :: "string option"

record scan_summary =
  sm_hosts :: nat
  sm_ports :: nat
  sm_total :: nat
  sm_valid :: nat
  sm_warning :: nat
  sm_expired :: nat
  sm_error :: nat
  sm_timestamp :: instant

datatype response =
    Status400 string
  | Json "processed list" scan_summary

text \<open>
  The loop that stores the results: an entry whose status is \<open>error\<close> is skipped, any
  other is saved; a rejected save leaves the loop with the exception.
\<close>

fun api_save_loop :: "database \<Rightarrow> cert_data list \<Rightarrow> exn option \<times> database" where
  "api_save_loop d [] = (None, d)"
| "api_save_loop d (cert # certs) =
     (if status cert \<noteq> ''error'' then
        (case saveCertificate d cert of
           (Inl x, d') \<Rightarrow> (Some x, d')
         | (Inr _, d') \<Rightarrow> api_save_loop d' certs)
      else api_save_loop d certs)"

text \<open>
  One entry of \<open>processedResults\<close>. No object of the scanner has an \<open>id\<close>, so the
  entry's id is \<open>rnd\<close>, the value of \<open>Math.floor(Math.random() * 1000000)\<close> drawn
  for it.
\<close>

definition processResult :: "instant \<Rightarrow> nat \<Rightarrow> cert_data \<Rightarrow> processed" where
  "processResult now rnd cert =
     \<lparr> pr_id = rnd,
       pr_hostname = to_text (js_or (host cert) (js_or (hostname cert)
                       (js_or (commonName cert) (Some ''unknown'')))),
       pr_port = (case port cert of None \<Rightarrow> 443 | Some p \<Rightarrow> if p = 0 then 443 else p),
       pr_issuer = to_text (js_or (issuer cert) (Some ''Unknown'')),
       pr_subject = to_text (js_or (subject cert) (Some ''Unknown'')),
       pr_commonName = to_text (js_or (commonName cert) (Some [])),
       pr_organization = to_text (js_or (organization cert) (Some [])),
       pr_validFrom = (case validFrom cert of None \<Rightarrow> now | Some t \<Rightarrow> t),
       pr_validTo = (case validTo cert of None \<Rightarrow> now | Some t \<Rightarrow> t),
       pr_fingerprint = to_text (js_or (fingerprint cert) (Some [])),
       pr_signatureAlgorithm = to_text (js_or (signatureAlgorithm cert) (Some ''Unknown'')),
       pr_selfSigned = (selfSigned cert = Some True),
       pr_daysRemaining = (case daysRemaining cert of None \<Rightarrow> 0 | Some n \<Rightarrow> n),
       pr_keyUsage = to_text (js_or (keyUsage cert) (Some [])),
       pr_status = (if status cert \<noteq> [] then status cert
                    else if truthy (error cert) then ''error'' else ''valid''),
       pr_lastScanned = lastScanned cert,
       pr_error = js_or (error cert) None \<rparr>"

definition count_status :: "string \<Rightarrow> cert_data list \<Rightarrow> nat" where
  "count_status s results = length (filter (\<lambda>r. status r = s) results)"

text \<open>
  The handler from the point where \<open>hostsToScan\<close> and \<open>portsToScan\<close> are known.
  \<open>rnd i\<close> is the random identifier drawn for the \<open>i\<close>-th entry. The result is the
  response and the database after the request.
\<close>

definition post_scan ::
    "env \<Rightarrow> (nat \<Rightarrow> nat) \<Rightarrow> string list \<Rightarrow> nat list \<Rightarrow> database \<Rightarrow> response \<times> database" where
  "post_scan e rnd hostsToScan portsToScan d =
     (if hostsToScan = [] then (Status400 ''No valid hosts provided'', d)
      else
        (let scanned = scanHosts e hostsToScan portsToScan 5000;
             (failure, d') = api_save_loop d scanned;
             results =
               (case failure of
                  None \<Rightarrow> scanned
                | Some scanError \<Rightarrow>
                    (case hostsToScan of
                       [] \<Rightarrow> scanned
                     | h0 # _ \<Rightarrow>
                         scanned @
                         [(errorRecord (e_now e) [] (first_port portsToScan) (message scanError))
                            \<lparr> host := None, hostname := Some h0 \<rparr>]));
             scanSummary =
               \<lparr> sm_hosts = length hostsToScan, sm_ports = length portsToScan,
                 sm_total = length results,
                 sm_valid = count_status ''valid'' results,
                 sm_warning = count_status ''warning'' results,
                 sm_expired = count_status ''expired'' results,
                 sm_error = count_status ''error'' results,
                 sm_timestamp = e_now e \<rparr>;
             processedResults =
               map (\<lambda>(i, cert). processResult (e_now e) (rnd i) cert)
                 (zip [0 ..< length results] results)
         in (Json processedResults scanSummary, d')))"

section \<open>The scheduler\<close>

text \<open>
  A job of the scheduling library: its handle, its rule and the scan object its callback
  closes over.
\<close>

record job =
  j_handle :: nat
  j_rule :: string
  j_scan :: scan_obj

text \<open>
  The state the scheduler works on: the registry \<open>activeJobs\<close> (a Map from scan id to a
  job, or to null, as the list of its entries in insertion order), the timers the scheduling library holds (the jobs scheduled and not
  cancelled), the handle of the next job, the database, and a log of the batch scans run
  for scheduled scans.
\<close>

record world =
  activeJobs :: "(nat \<times> job option) list"
  timers :: "job list"
  job_seq :: nat
  db :: database
  scan_log :: "(string list \<times> nat list) list"

definition rule_of :: "string \<Rightarrow> string" where
  "rule_of frequency =
     (if frequency = ''hourly'' then ''0 * * * *''
      else if frequency = ''daily'' then ''0 0 * * *''
      else if frequency = ''weekly'' then ''0 0 * * 0''
      else if frequency = ''monthly'' then ''0 0 1 * *''
      else frequency)"

text \<open>\<open>job.cancel()\<close>: the library drops the job's timer.\<close>

definition cancel :: "job \<Rightarrow> job list \<Rightarrow> job list" where
  "cancel j ts = filter (\<lambda>t. j_handle t \<noteq> j_handle j) ts"

text \<open>
  scheduleJob. The update of the run times, which the code starts without awaiting it,
  is applied at once. \<open>nextInvocation rule now\<close> is the library's next firing time of a rule,
  \<open>None\<close> for a rule it cannot schedule: \<open>schedule.scheduleJob\<close> then returns null, the
  registry receives null, and \<open>job.nextInvocation()\<close> throws inside the \<open>try\<close>. The
  cancellation at the top is outside the \<open>try\<close>: on a null entry it throws to the caller.
\<close>

definition scheduleJob ::
    "(string \<Rightarrow> instant \<Rightarrow> instant option) \<Rightarrow> instant \<Rightarrow> scan_obj \<Rightarrow> world \<Rightarrow> exn + world" where
  "scheduleJob nextInvocation now scan w =
     (case map_of (activeJobs w) (so_id scan) of
        Some None \<Rightarrow> Inl (TypeError ''Cannot read properties of null (reading cancel)'')
      | existing \<Rightarrow>
          (let w1 = (case existing of
                       Some (Some old) \<Rightarrow>
                         w\<lparr> timers := cancel old (timers w),
                            activeJobs := AList.delete (so_id scan) (activeJobs w) \<rparr>
                     | _ \<Rightarrow> w)
           in if \<not> so_active scan then Inr w1
              else
                (case (case so_frequency scan of
                         None \<Rightarrow> None
                       | Some f \<Rightarrow> map_option (Pair (rule_of f)) (nextInvocation (rule_of f) now)) of
                   None \<Rightarrow> Inr (w1\<lparr> activeJobs := AList.update (so_id scan) None (activeJobs w1) \<rparr>)
                 | Some (rule, nextRun) \<Rightarrow>
                     (let j = \<lparr> j_handle = job_seq w1, j_rule = rule, j_scan = scan \<rparr>
                      in Inr (w1\<lparr> timers := timers w1 @ [j],
                                  job_seq := Suc (job_seq w1),
                                  activeJobs := AList.update (so_id scan) (Some j) (activeJobs w1),
                                  db := updateScheduledScanTimes (db w1) (so_id scan)
                                          (so_lastRun scan) (Some nextRun) \<rparr>)))))"

text \<open>The state after the cancellation at the top of scheduleJob.\<close>

definition cancelled :: "nat \<Rightarrow> world \<Rightarrow> world" where
  "cancelled i w =
     (case map_of (activeJobs w) i of
        Some (Some old) \<Rightarrow>
          w\<lparr> timers := cancel old (timers w), activeJobs := AList.delete i (activeJobs w) \<rparr>
      | _ \<Rightarrow> w)"

text \<open>The number of live timers whose callback runs the scan of a given id.\<close>

definition live_timers :: "world \<Rightarrow> nat \<Rightarrow> nat" where
  "live_timers w i = length (filter (\<lambda>t. so_id (j_scan t) = i) (timers w))"

text \<open>
  The registry and the library agree: every live timer is the job registered for its
  scan id, handles are distinct and below the next handle.
\<close>

definition registry_ok :: "world \<Rightarrow> bool" where
  "registry_ok w =
     (list_all
        (\<lambda>t. map_of (activeJobs w) (so_id (j_scan t)) = Some (Some t) \<and> j_handle t < job_seq w)
        (timers w) \<and>
      distinct (map j_handle (timers w)))"

text \<open>The loop of runScanNow that stores every result.\<close>

fun save_loop :: "database \<Rightarrow> cert_data list \<Rightarrow> exn option \<times> database" where
  "save_loop d [] = (None, d)"
| "save_loop d (cert # certs) =
     (case saveCertificate d cert of
        (Inl x, d') \<Rightarrow> (Some x, d')
      | (Inr _, d') \<Rightarrow> save_loop d' certs)"

text \<open>
  runScanNow: the results, or the exception the promise rejects with, and the state
  afterwards. \<open>scan\<close> is the row object of the database.
\<close>

definition runScanNow :: "env \<Rightarrow> nat \<Rightarrow> world \<Rightarrow> (exn + cert_data list) \<times> world" where
  "runScanNow e scanId w =
     (case getScheduledScanById (db w) scanId of
        None \<Rightarrow> (Inl (ScanNotFound scanId), w)
      | Some scan \<Rightarrow>
          (let results = scanHosts e (so_hosts scan) (so_ports scan) 5000;
               w1 = w\<lparr> scan_log := scan_log w @ [(so_hosts scan, so_ports scan)] \<rparr>
           in case save_loop (db w1) results of
                (Some x, d') \<Rightarrow> (Inl x, w1\<lparr> db := d' \<rparr>)
              | (None, d') \<Rightarrow>
                  (Inr results,
                   w1\<lparr> db := updateScheduledScanTimes d' (so_id scan)
                               (Some (e_now e)) (so_nextRun scan) \<rparr>)))"

section \<open>Concrete inputs\<close>

text \<open>
  A small world used to run the definitions: at day 1000, host \<open>a.example\<close> presents a
  certificate (subject \<open>CN=a.example, O=Acme\<close>, issuer \<open>CN=Acme Root, O=Acme CA\<close>)
  that expired five days before and that the decoder accepts, \<open>c.example\<close> one whose
  bytes the decoder rejects, \<open>b.example\<close> refuses the connection, and every other host
  times out. The handshake reports subject and issuer as objects without a prototype
  and a fingerprint of twenty upper-case pairs. \<open>stub_digest\<close> stands in for the hash
  function: 32 bytes.
\<close>

definition stub_digest :: "byte list \<Rightarrow> byte list" where
  "stub_digest bs = replicate 32 (of_nat (171 + length bs))"

definition day :: "int \<Rightarrow> instant" where
  "day n = n * msPerDay"

definition cert_a :: peer_cert where
  "cert_a =
     \<lparr> p_subject = Some (DnBare [(''CN'', ''a.example''), (''O'', ''Acme'')]),
       p_issuer = Some (DnBare [(''CN'', ''Acme Root''), (''O'', ''Acme CA'')]),
       p_valid_from = Some (day 900), p_validFrom = None,
       p_valid_to = Some (day 995), p_validTo = None,
       p_fingerprint = Some ''5F:3A:91:0C:77:E2:4B:D8:16:A0:C3:2E:9B:64:F1:08:3D:B5:7A:CE'',
       p_serialNumber = Some ''01'',
       p_raw = Some [0x30, 0x82] \<rparr>"

definition dn_a :: forge_dn where
  "dn_a =
     \<lparr> dn_attributes = Some
         [\<lparr> a_shortName = Some ''CN'', a_name = Some ''commonName'',
            a_value = ''a.example'' \<rparr>,
          \<lparr> a_shortName = Some ''O'', a_name = Some ''organizationName'',
            a_value = ''Acme'' \<rparr>],
       dn_hasGetField = True \<rparr>"

definition dn_root :: forge_dn where
  "dn_root =
     \<lparr> dn_attributes = Some
         [\<lparr> a_shortName = Some ''CN'', a_name = Some ''commonName'', a_value = ''Acme Root'' \<rparr>,
          \<lparr> a_shortName = Some ''O'', a_name = Some ''organizationName'',
            a_value = ''Acme CA'' \<rparr>],
       dn_hasGetField = True \<rparr>"

definition dn_empty :: forge_dn where
  "dn_empty = \<lparr> dn_attributes = Some [], dn_hasGetField = True \<rparr>"

definition forge_a :: forge_cert where
  "forge_a =
     \<lparr> fc_host = None, fc_port = None,
       fc_subject = Some dn_a,
       fc_issuer = Some dn_root,
       fc_notBefore = day 900, fc_notAfter = day 995,
       fc_algorithmOid = Some ''1.2.840.113549.1.1.11'', fc_signatureOid = None,
       fc_keyUsage = None,
       fc_der = Some [0x30, 0x82] \<rparr>"

definition cert_c :: peer_cert where
  "cert_c = cert_a\<lparr> p_raw := Some [0xff], p_valid_to := Some (day 1400) \<rparr>"

definition demo_env :: env where
  "demo_env =
     \<lparr> e_now = day 1000,
       e_connect = (\<lambda>h p. if h = ''a.example'' then Connected (Some cert_a)
                          else if h = ''c.example'' then Connected (Some cert_c)
                          else if h = ''b.example'' then SocketError ''connect ECONNREFUSED''
                          else SocketTimeout),
       e_fromDer = (\<lambda>bs. if bs = [0x30, 0x82] then Inr forge_a
                         else Inl ''Too few bytes to parse DER.''),
       e_sha256 = stub_digest \<rparr>"

text \<open>
  A database holding one certificate row, for \<open>b.example\<close>, and one scheduled scan,
  number 7, whose next run is stored as day 1001; the same scan with a frequency that is
  no rule of the library, and the same scan deactivated; a scheduler state with no job,
  and the one whose registry holds null for scan 7; and a stand-in for the library's
  next firing time (the next midnight for the rules of the four named cadences, and no
  firing time for any other rule, which it cannot schedule).
\<close>

definition row_b :: cert_row where
  "row_b =
     \<lparr> r_id = 1, r_host = ''b.example'', r_port = 443, r_subject = Some ''CN=b.example'',
       r_issuer = Some ''Acme CA'', r_valid_from = Some (day 800), r_valid_to = Some (day 1200),
       r_fingerprint = Some ''01:02'', r_signature_algorithm = Some ''SHA256withRSA'',
       r_self_signed = False, r_status = ''valid'', r_last_scanned = day 990,
       r_days_remaining = Some 210 \<rparr>"

definition scan_7 :: scan_row where
  "scan_7 =
     \<lparr> s_id = 7, s_name = ''nightly'', s_hosts = [''a.example'', ''b.example''],
       s_ports = [443], s_frequency = ''daily'', s_last_run = Some (day 999),
       s_next_run = Some (day 1001), s_active = True \<rparr>"

definition demo_db :: database where
  "demo_db = \<lparr> certificates = [row_b], cert_seq = 1, scheduled_scans = [scan_7] \<rparr>"

definition demo_world :: world where
  "demo_world = \<lparr> activeJobs = [], timers = [], job_seq = 0, db = demo_db, scan_log = [] \<rparr>"





section \<open>Distinguished names and the self-signed flag\<close>

lemma attr_pair_nonempty: "attr_pair a \<noteq> []"
  by (simp add: attr_pair_def)

lemma join_Cons_nonempty: "x \<noteq> [] \<Longrightarrow> join sep (x # xs) \<noteq> []"
  by (cases xs) simp_all

lemma formatDN_nonempty:
  "dn_attributes d = Some (a # attrs) \<Longrightarrow> formatDN (Some d) \<noteq> []"
  by (simp add: formatDN_def join_Cons_nonempty attr_pair_nonempty)

text \<open>
  The subject and issuer strings of the decoder's record. formatDN returns the empty
  string on an empty attribute array; the \<open>|| 'Unknown'\<close> of parseCertificate turns it
  into \<open>Unknown\<close>.
\<close>

lemma dn_string_cases:
  "dn_string dn =
     (case dn of
        None \<Rightarrow> ''Unknown''
      | Some d \<Rightarrow>
          (case dn_attributes d of
             None \<Rightarrow> ''Unknown''
           | Some [] \<Rightarrow> ''Unknown''
           | Some (a # attrs) \<Rightarrow> join '', '' (map attr_pair (a # attrs))))"
proof (cases dn)
  case None
  then show ?thesis by (simp add: dn_string_def js_or_def truthy_def to_text_def)
next
  case (Some d)
  show ?thesis
  proof (cases "dn_attributes d")
    case None
    with Some show ?thesis
      by (simp add: dn_string_def formatDN_def js_or_def truthy_def to_text_def)
  next
    case (Some attrs)
    note attrs = this
    show ?thesis
    proof (cases attrs)
      case Nil
      with attrs \<open>dn = Some d\<close> show ?thesis
        by (simp add: dn_string_def formatDN_def js_or_def truthy_def to_text_def)
    next
      case (Cons a as)
      with attrs have "formatDN (Some d) \<noteq> []" by (simp add: formatDN_nonempty)
      moreover from attrs Cons have "formatDN (Some d) = join '', '' (map attr_pair (a # as))"
        by (simp add: formatDN_def)
      ultimately show ?thesis using attrs Cons \<open>dn = Some d\<close>
        by (simp add: dn_string_def js_or_def truthy_def to_text_def)
    qed
  qed
qed

text \<open>
  Claim C7. The formatting of a distinguished name joins its attributes, in the order of
  the attribute array, as \<open>ShortName=Value\<close> pairs separated by a comma and a space (the
  long name stands in where an attribute has no short name); the subject and the issuer
  of a name that has no attributes (no attribute array, or an empty one) resolve to the
  string \<open>Unknown\<close>, and those of a name with attributes are its formatted string.
\<close>

theorem formatDN_joins_pairs_or_Unknown:
  "formatDN None = ''Unknown'' \<and>
   (dn_attributes d = None \<longrightarrow> formatDN (Some d) = ''Unknown'') \<and>
   (dn_attributes d = Some attrs \<longrightarrow> formatDN (Some d) = join '', '' (map attr_pair attrs)) \<and>
   (a_shortName a = Some sn \<and> sn \<noteq> [] \<longrightarrow> attr_pair a = sn @ ''='' @ a_value a) \<and>
   (dn_attributes d = None \<or> dn_attributes d = Some [] \<longrightarrow>
      subject (parseCertificate dg now (c\<lparr>fc_subject := Some d\<rparr>)) = Some ''Unknown'' \<and>
      issuer (parseCertificate dg now (c\<lparr>fc_issuer := Some d\<rparr>)) = Some ''Unknown'') \<and>
   (dn_attributes d = Some attrs \<and> attrs \<noteq> [] \<longrightarrow>
      subject (parseCertificate dg now (c\<lparr>fc_subject := Some d\<rparr>)) = Some (formatDN (Some d)) \<and>
      issuer (parseCertificate dg now (c\<lparr>fc_issuer := Some d\<rparr>)) = Some (formatDN (Some d)))"
  by (auto simp: formatDN_def parseCertificate_def Let_def dn_string_cases attr_pair_def js_or_def
      truthy_def to_text_def split: list.splits)

theorem formatDN_joins_pairs_or_Unknown_witness:
  "formatDN (Some dn_a) = ''CN=a.example, O=Acme'' \<and>
   subject (parseCertificate stub_digest (day 1000) (forge_a\<lparr>fc_subject := Some dn_a\<rparr>)) =
     Some ''CN=a.example, O=Acme'' \<and>
   subject (parseCertificate stub_digest (day 1000) (forge_a\<lparr>fc_subject := Some dn_empty\<rparr>)) =
     Some ''Unknown''"
  using formatDN_joins_pairs_or_Unknown
          [of dn_a "the (dn_attributes dn_a)" "hd (the (dn_attributes dn_a))" "''CN''"
              stub_digest "day 1000" forge_a]
        formatDN_joins_pairs_or_Unknown
          [of dn_empty "[]" "hd (the (dn_attributes dn_a))" "''CN''"
              stub_digest "day 1000" forge_a]
  by (simp add: dn_a_def dn_empty_def attr_pair_def js_or_def truthy_def to_text_def)

text \<open>
  Claim C8. The \<open>selfSigned\<close> flag of the decoder's record is true exactly when the
  issuer string equals the subject string, both being the strings the same formatting
  produces for the certificate's issuer and subject; the record a scan returns keeps the
  decoder's flag.
\<close>

theorem selfSigned_iff_same_dn_string:
  "selfSigned (parseCertificate dg now c) =
     Some (dn_string (fc_issuer c) = dn_string (fc_subject c)) \<and>
   issuer (parseCertificate dg now c) = Some (dn_string (fc_issuer c)) \<and>
   subject (parseCertificate dg now c) = Some (dn_string (fc_subject c)) \<and>
   selfSigned (combinedData h p (parseCertificate dg now c) raw) =
     selfSigned (parseCertificate dg now c)"
  by (simp add: parseCertificate_def Let_def combinedData_def)

theorem selfSigned_iff_same_dn_string_witness:
  "selfSigned (parseCertificate stub_digest (day 1000) forge_a) = Some False \<and>
   selfSigned (parseCertificate stub_digest (day 1000) (forge_a\<lparr>fc_issuer := Some dn_a\<rparr>)) =
     Some True"
  using selfSigned_iff_same_dn_string [of stub_digest "day 1000" forge_a]
        selfSigned_iff_same_dn_string [of stub_digest "day 1000" "forge_a\<lparr>fc_issuer := Some dn_a\<rparr>"]
  by (simp add: forge_a_def dn_a_def dn_root_def dn_string_cases attr_pair_def js_or_def
      truthy_def to_text_def)

section \<open>Classification of a scanned certificate\<close>

lemmas js_defs = js_or_def truthy_def to_text_def js_or_def_def

lemma classify_rule:
  "(classify d = ''expired'' \<longleftrightarrow> d < 0) \<and>
   (classify d = ''warning'' \<longleftrightarrow> 0 \<le> d \<and> d < 30) \<and>
   (classify d = ''valid'' \<longleftrightarrow> 30 \<le> d)"
  by (simp add: classify_def)

text \<open>The decoder's own record is classified by the rule.\<close>

lemma parseCertificate_status:
  "status (parseCertificate dg now c) = classify ((fc_notAfter c - now) div msPerDay) \<and>
   daysRemaining (parseCertificate dg now c) = Some ((fc_notAfter c - now) div msPerDay)"
  by (simp add: parseCertificate_def Let_def)

text \<open>
  Every record getCertificate resolves with has the status of the handshake's record,
  the constant \<open>valid\<close>: the spread of \<open>rawCertData\<close> replaces the decoder's status.
\<close>

lemma getCertificate_status_valid:
  "getCertificate e h p t = Inr r \<Longrightarrow> status r = ''valid''"
  by (auto simp: getCertificate_def Let_def rawCertData_def combinedData_def
      split: tls_outcome.splits option.splits sum.splits)

text \<open>
  Claim C1 asks that the status of every record of a successful scan follows the rule
  (\<open>expired\<close> below 0 days, \<open>warning\<close> from 0 to 29, \<open>valid\<close> from 30). The code at a
  certificate that expired five days before the scan: the record getCertificate resolves
  with has \<open>daysRemaining = -5\<close> and \<open>status = valid\<close>, although the decoder classified
  the same certificate as \<open>expired\<close>.
\<close>

theorem getCertificate_expired_reported_valid:
  "map_sum id daysRemaining (getCertificate demo_env ''a.example'' 443 5000) = Inr (Some (- 5)) \<and>
   map_sum id status (getCertificate demo_env ''a.example'' 443 5000) = Inr ''valid'' \<and>
   status (parseCertificate (e_sha256 demo_env) (e_now demo_env) forge_a) = ''expired''"
  by code_simp

section \<open>Merging the handshake's record and the decoder's record\<close>

lemma formatRawIssuer_truthy: "formatRawIssuer i \<noteq> []"
  by (auto simp: formatRawIssuer_def js_defs Let_def split: option.splits raw_dn.splits)

text \<open>
  Claim C2 as stated (the decoder's value first, the handshake's value only when the
  decoder's is absent) fails: the decoder found the issuer \<open>CN=Acme Root, O=Acme CA\<close>,
  and the merged record carries the issuer of the handshake's record, \<open>Unknown\<close>.
\<close>

theorem merge_overwrites_decoder_counterexample:
  "issuer (parseCertificate (e_sha256 demo_env) (e_now demo_env) forge_a) =
     Some ''CN=Acme Root, O=Acme CA'' \<and>
   map_sum id issuer (getCertificate demo_env ''a.example'' 443 5000) =
     Inr (Some ''Unknown'')"
  by code_simp

text \<open>
  Claim C2, amended. When the handshake yields a certificate with raw bytes and the
  decoder accepts them, the merged record takes the common name, the organization and
  the validity dates from the handshake's record, and from the decoder's record only
  when the handshake's value is absent or empty; the issuer is the handshake's (it is
  never empty); the subject, signature algorithm, self-signed flag and key usage, which
  the handshake's record does not have, are the decoder's; host and port are the
  target's.
\<close>

theorem combinedData_field_sources:
  assumes "e_connect e h p = Connected (Some cert)"
    and "p_raw cert = Some bytes"
    and "e_fromDer e bytes = Inr fc"
  shows "\<exists>m. getCertificate e h p t = Inr m \<and>
     (let raw = rawCertData (e_now e) h p cert;
          parsed = parseCertificate (e_sha256 e) (e_now e) fc
      in host m = Some h \<and> port m = Some p \<and>
         commonName m = (if truthy (commonName raw) then commonName raw else commonName parsed) \<and>
         organization m =
           (if truthy (organization raw) then organization raw else organization parsed) \<and>
         issuer m = issuer raw \<and>
         validFrom m = (if validFrom raw \<noteq> None then validFrom raw else validFrom parsed) \<and>
         validTo m = (if validTo raw \<noteq> None then validTo raw else validTo parsed) \<and>
         subject m = subject parsed \<and> signatureAlgorithm m = signatureAlgorithm parsed \<and>
         selfSigned m = selfSigned parsed \<and> keyUsage m = keyUsage parsed)"
  using assms
  by (auto simp: getCertificate_def convertToPem_def combinedData_def Let_def js_or_def
      js_or_def_def rawCertData_def truthy_def formatRawIssuer_truthy split: option.splits)

theorem combinedData_field_sources_witness:
  "map_sum id issuer (getCertificate demo_env ''a.example'' 443 5000) =
     Inr (Some ''Unknown'') \<and>
   map_sum id commonName (getCertificate demo_env ''a.example'' 443 5000) =
     Inr (Some ''a.example'') \<and>
   map_sum id subject (getCertificate demo_env ''a.example'' 443 5000) =
     Inr (Some ''CN=a.example, O=Acme'')"
proof -
  have h1: "e_connect demo_env ''a.example'' 443 = Connected (Some cert_a)"
    by (simp add: demo_env_def)
  have h2: "p_raw cert_a = Some [0x30, 0x82]"
    by (simp add: cert_a_def)
  have h3: "e_fromDer demo_env [0x30, 0x82] = Inr forge_a"
    by (simp add: demo_env_def)
  let ?raw = "rawCertData (e_now demo_env) ''a.example'' 443 cert_a"
  let ?parsed = "parseCertificate (e_sha256 demo_env) (e_now demo_env) forge_a"
  from combinedData_field_sources [OF h1 h2 h3, of 5000]
  obtain m where m: "getCertificate demo_env ''a.example'' 443 5000 = Inr m"
    and cn: "commonName m = (if truthy (commonName ?raw) then commonName ?raw else commonName ?parsed)"
    and iss: "issuer m = issuer ?raw"
    and sb: "subject m = subject ?parsed"
    by (auto simp: Let_def)
  have "commonName ?raw = Some []"
    by code_simp
  moreover have "commonName ?parsed = Some ''a.example''"
    by code_simp
  moreover have "issuer ?raw = Some ''Unknown''"
    by code_simp
  moreover have "subject ?parsed = Some ''CN=a.example, O=Acme''"
    by code_simp
  ultimately show ?thesis using m cn iss sb by (simp add: truthy_def)
qed

section \<open>The fingerprint\<close>

lemma pairs_toHex: "pairs (toHex bs) = map hex_byte bs"
  by (induction bs) (simp_all add: toHex_def hex_byte_def)

lemma digit_char_hex: "digit_char d \<in> set ''0123456789abcdef''"
proof -
  have "d mod 16 < length ''0123456789abcdef''" by simp
  then show ?thesis unfolding digit_char_def by (rule nth_mem)
qed

lemma hex_byte_shape:
  "length (hex_byte b) = 2 \<and> set (hex_byte b) \<subseteq> set ''0123456789abcdef''"
  using digit_char_hex [of "unat b div 16"] digit_char_hex [of "unat b mod 16"]
  by (simp add: hex_byte_def)

lemma length_join_pairs:
  "list_all (\<lambda>x. length x = 2) ps \<Longrightarrow> ps \<noteq> [] \<Longrightarrow> length (join '':'' ps) + 1 = 3 * length ps"
  by (induction "'':''" ps rule: join.induct) simp_all

text \<open>
  The fingerprint parseCertificate computes. For a decoded certificate whose DER
  encoding is \<open>der\<close>, with a digest function that returns 32 bytes, it is the digest of
  \<open>der\<close> written as one pair of lower-case hexadecimal digits for each byte, the 32
  pairs joined by colons (95 characters), and it does not depend on the time of decoding.
\<close>

lemma parseCertificate_fingerprint:
  assumes "fc_der c = Some der" and "length (digest der) = 32"
  shows "fingerprint (parseCertificate digest now c) =
           Some (join '':'' (map hex_byte (digest der))) \<and>
         length (map hex_byte (digest der)) = 32 \<and>
         list_all (\<lambda>pr. length pr = 2 \<and> set pr \<subseteq> set ''0123456789abcdef'')
           (map hex_byte (digest der)) \<and>
         length (join '':'' (map hex_byte (digest der))) = 95 \<and>
         fingerprint (parseCertificate digest now' c) = fingerprint (parseCertificate digest now c)"
proof -
  let ?ps = "map hex_byte (digest der)"
  from assms(2) have ne: "?ps \<noteq> []" by auto
  have shape: "list_all (\<lambda>pr. length pr = 2 \<and> set pr \<subseteq> set ''0123456789abcdef'') ?ps"
    using hex_byte_shape by (simp add: list_all_iff)
  then have "list_all (\<lambda>x. length x = 2) ?ps" by (simp add: list_all_iff)
  from length_join_pairs [OF this ne] assms(2) have len: "length (join '':'' ?ps) = 95" by simp
  have fp: "fingerprint_of digest c = join '':'' ?ps"
    using assms(1) ne by (simp add: fingerprint_of_def match_pairs_def pairs_toHex)
  show ?thesis using fp shape len assms(2) by (simp add: parseCertificate_def Let_def)
qed

text \<open>
  The fingerprint of every record getCertificate resolves with is the one the handshake
  reported, or \<open>Unknown\<close>: the spread of \<open>rawCertData\<close> replaces the decoder's.
\<close>

lemma getCertificate_fingerprint_raw:
  "e_connect e h p = Connected (Some cert) \<Longrightarrow> getCertificate e h p t = Inr r \<Longrightarrow>
   fingerprint r = js_or (p_fingerprint cert) (Some ''Unknown'')"
  by (auto simp: getCertificate_def Let_def rawCertData_def combinedData_def
      split: option.splits sum.splits)

text \<open>
  Claim C4 asks that the fingerprint of the record be the SHA-256 digest of the DER
  bytes as 32 lower-case hexadecimal pairs joined by colons. The code at a certificate
  the decoder accepts: parseCertificate computes that fingerprint (here from the stand-in
  digest), and the record getCertificate resolves with carries instead the fingerprint
  the handshake reported, twenty upper-case pairs.
\<close>

theorem getCertificate_fingerprint_not_digest:
  "fingerprint (parseCertificate (e_sha256 demo_env) (e_now demo_env) forge_a) =
     Some ''ad:ad:ad:ad:ad:ad:ad:ad:ad:ad:ad:ad:ad:ad:ad:ad:ad:ad:ad:ad:ad:ad:ad:ad:ad:ad:ad:ad:ad:ad:ad:ad'' \<and>
   map_sum id fingerprint (getCertificate demo_env ''a.example'' 443 5000) =
     Inr (Some ''5F:3A:91:0C:77:E2:4B:D8:16:A0:C3:2E:9B:64:F1:08:3D:B5:7A:CE'')"
  by code_simp

section \<open>The batch scan\<close>

lemma scanHost_loop_map:
  "scanHost_loop e h t ps acc = acc @ map (scanPort e h t) ps"
  by (induction ps arbitrary: acc) simp_all

lemma scanHosts_loop_concat:
  "scanHosts_loop e ports t hs acc = acc @ concat (map (\<lambda>h. map (scanPort e h t) ports) hs)"
  by (induction hs arbitrary: acc) (simp_all add: scanHost_def scanHost_loop_map)

lemma scanHosts_product:
  "scanHosts e hosts ports t = map (\<lambda>(h, p). scanPort e h t p) (List.product hosts ports)"
  by (induction hosts) (simp_all add: scanHosts_def scanHosts_loop_concat)

lemma getCertificate_host_port:
  "getCertificate e h p t = Inr c \<Longrightarrow> host c = Some h \<and> port c = Some p"
  by (auto simp: getCertificate_def Let_def rawCertData_def combinedData_def
      split: tls_outcome.splits option.splits sum.splits)

lemma scanPort_host_port:
  "host (scanPort e h t p) = Some h \<and> port (scanPort e h t p) = Some p"
  by (auto simp: scanPort_def errorRecord_def dest: getCertificate_host_port split: sum.splits)

text \<open>getCertificate rejects exactly when the connection does not deliver a certificate.\<close>

lemma getCertificate_Inl_iff:
  "(\<exists>m. getCertificate e h p t = Inl m) \<longleftrightarrow> (\<forall>cert. e_connect e h p \<noteq> Connected (Some cert))"
  by (auto simp: getCertificate_def Let_def split: tls_outcome.splits option.splits sum.splits)

lemma getCertificate_message_nonempty: "getCertificate e h p t = Inl m \<Longrightarrow> m \<noteq> []"
  by (auto simp: getCertificate_def Let_def split: tls_outcome.splits option.splits sum.splits)

text \<open>
  Claim C3 as stated fails in one point: a pair whose certificate the decoder rejects
  does not yield an \<open>error\<close> record. The bytes \<open>c.example\<close> presents make convertToPem
  throw, and the record of the pair has status \<open>valid\<close> and no error message.
\<close>

theorem scanHosts_decode_failure_counterexample:
  "convertToPem demo_env (p_raw cert_c) = Inl ''Too few bytes to parse DER.'' \<and>
   map status (scanHosts demo_env [''c.example''] [443] 5000) = [''valid''] \<and>
   map error (scanHosts demo_env [''c.example''] [443] 5000) = [None]"
  by code_simp

text \<open>A certificate the decoder rejects: getCertificate resolves with the handshake's record.\<close>

lemma getCertificate_decoder_rejects:
  "e_connect e h p = Connected (Some cert) \<Longrightarrow> p_raw cert = Some bytes \<Longrightarrow>
   e_fromDer e bytes = Inl forgeErr \<Longrightarrow>
   getCertificate e h p t = Inr (rawCertData (e_now e) h p cert)"
  by (simp add: getCertificate_def convertToPem_def Let_def)

text \<open>
  Claim C3, amended. scanHosts returns a list (it has no path that throws) with exactly
  one record for each (host, port) pair, hosts in the outer loop and ports in the inner
  one, each record carrying the host and the port of its pair. A pair whose probe fails
  (the connection delivers no certificate: connection error, timeout, stalled
  connection, no certificate presented) yields a record with status \<open>error\<close> and the
  failure message. A pair whose certificate the decoder rejects yields the handshake's
  record, which is no error record and has no error message. Any other pair yields the
  record getCertificate resolved with. No pair's failure removes another's record.
\<close>

theorem scanHosts_one_record_per_pair:
  "scanHosts e hosts ports t =
     map (\<lambda>(h, p). case getCertificate e h p t of
                     Inr c \<Rightarrow> c
                   | Inl m \<Rightarrow> errorRecord (e_now e) h (Some p) m)
       (List.product hosts ports) \<and>
   length (scanHosts e hosts ports t) = length hosts * length ports \<and>
   map (\<lambda>r. (host r, port r)) (scanHosts e hosts ports t) =
     map (\<lambda>(h, p). (Some h, Some p)) (List.product hosts ports) \<and>
   (\<forall>k < length hosts * length ports.
      (case getCertificate e (hosts ! (k div length ports)) (ports ! (k mod length ports)) t of
         Inl m \<Rightarrow> status (scanHosts e hosts ports t ! k) = ''error'' \<and>
                  error (scanHosts e hosts ports t ! k) = Some m
       | Inr c \<Rightarrow> scanHosts e hosts ports t ! k = c) \<and>
      ((\<forall>cert. e_connect e (hosts ! (k div length ports)) (ports ! (k mod length ports)) \<noteq>
                Connected (Some cert)) \<longrightarrow>
         status (scanHosts e hosts ports t ! k) = ''error'' \<and>
         (\<exists>m. m \<noteq> [] \<and> error (scanHosts e hosts ports t ! k) = Some m)) \<and>
      (\<forall>cert bytes forgeErr.
         e_connect e (hosts ! (k div length ports)) (ports ! (k mod length ports)) =
           Connected (Some cert) \<and>
         p_raw cert = Some bytes \<and> e_fromDer e bytes = Inl forgeErr \<longrightarrow>
         scanHosts e hosts ports t ! k =
           rawCertData (e_now e) (hosts ! (k div length ports)) (ports ! (k mod length ports)) cert \<and>
         status (scanHosts e hosts ports t ! k) \<noteq> ''error'' \<and>
         error (scanHosts e hosts ports t ! k) = None))"
proof -
  let ?rs = "scanHosts e hosts ports t"
  have prod: "?rs = map (\<lambda>(h, p). scanPort e h t p) (List.product hosts ports)"
    by (rule scanHosts_product)
  have len: "length ?rs = length hosts * length ports"
    by (simp add: prod)
  have keys: "map (\<lambda>r. (host r, port r)) ?rs =
     map (\<lambda>(h, p). (Some h, Some p)) (List.product hosts ports)"
    by (simp add: prod scanPort_host_port split_def)
  have nth: "(case getCertificate e (hosts ! (k div length ports)) (ports ! (k mod length ports)) t of
         Inl m \<Rightarrow> status (?rs ! k) = ''error'' \<and> error (?rs ! k) = Some m
       | Inr c \<Rightarrow> ?rs ! k = c) \<and>
      ((\<forall>cert. e_connect e (hosts ! (k div length ports)) (ports ! (k mod length ports)) \<noteq>
                Connected (Some cert)) \<longrightarrow>
         status (?rs ! k) = ''error'' \<and> (\<exists>m. m \<noteq> [] \<and> error (?rs ! k) = Some m)) \<and>
      (\<forall>cert bytes forgeErr.
         e_connect e (hosts ! (k div length ports)) (ports ! (k mod length ports)) =
           Connected (Some cert) \<and>
         p_raw cert = Some bytes \<and> e_fromDer e bytes = Inl forgeErr \<longrightarrow>
         ?rs ! k =
           rawCertData (e_now e) (hosts ! (k div length ports)) (ports ! (k mod length ports)) cert \<and>
         status (?rs ! k) \<noteq> ''error'' \<and> error (?rs ! k) = None)"
    if "k < length hosts * length ports" for k
  proof -
    let ?h = "hosts ! (k div length ports)" and ?p = "ports ! (k mod length ports)"
    from that have rk: "?rs ! k = scanPort e ?h t ?p"
      by (simp add: prod product_nth)
    have a: "(case getCertificate e ?h ?p t of
         Inl m \<Rightarrow> status (?rs ! k) = ''error'' \<and> error (?rs ! k) = Some m
       | Inr c \<Rightarrow> ?rs ! k = c)"
      using rk by (auto simp: scanPort_def errorRecord_def split: sum.splits)
    have b: "status (?rs ! k) = ''error'' \<and> (\<exists>m. m \<noteq> [] \<and> error (?rs ! k) = Some m)"
      if "\<forall>cert. e_connect e ?h ?p \<noteq> Connected (Some cert)"
    proof -
      from that obtain m where m: "getCertificate e ?h ?p t = Inl m"
        using getCertificate_Inl_iff [of e ?h ?p t] by blast
      then have "m \<noteq> []" by (rule getCertificate_message_nonempty)
      with m rk show ?thesis by (simp add: scanPort_def errorRecord_def)
    qed
    have c: "?rs ! k = rawCertData (e_now e) ?h ?p cert \<and>
         status (?rs ! k) \<noteq> ''error'' \<and> error (?rs ! k) = None"
      if "e_connect e ?h ?p = Connected (Some cert)" "p_raw cert = Some bytes"
         "e_fromDer e bytes = Inl forgeErr" for cert bytes forgeErr
      using getCertificate_decoder_rejects [OF that, of t] rk
      by (simp add: scanPort_def rawCertData_def)
    from a b c show ?thesis by blast
  qed
  show ?thesis using prod len keys nth unfolding scanPort_def by blast
qed

theorem scanHosts_one_record_per_pair_witness:
  "map status (scanHosts demo_env [''a.example'', ''b.example'', ''c.example''] [443] 5000) =
     [''valid'', ''error'', ''valid''] \<and>
   map error (scanHosts demo_env [''a.example'', ''b.example'', ''c.example''] [443] 5000) =
     [None, Some ''Connection error: connect ECONNREFUSED'', None] \<and>
   scanHosts demo_env [''a.example'', ''b.example'', ''c.example''] [443] 5000 ! 2 =
     rawCertData (e_now demo_env) ''c.example'' 443 cert_c"
proof -
  let ?hosts = "[''a.example'', ''b.example'', ''c.example'']"
  let ?rs = "scanHosts demo_env ?hosts [443] 5000"
  note pairs_spec = scanHosts_one_record_per_pair [of demo_env ?hosts "[443]" 5000]
  from pairs_spec have eq: "?rs =
     map (\<lambda>(h, p). case getCertificate demo_env h p 5000 of
                     Inr c \<Rightarrow> c
                   | Inl m \<Rightarrow> errorRecord (e_now demo_env) h (Some p) m)
       (List.product ?hosts [443])"
    by blast
  have st: "map status (map (\<lambda>(h, p). case getCertificate demo_env h p 5000 of
                     Inr c \<Rightarrow> c
                   | Inl m \<Rightarrow> errorRecord (e_now demo_env) h (Some p) m)
       (List.product ?hosts [443])) = [''valid'', ''error'', ''valid'']"
    by code_simp
  have er: "map error (map (\<lambda>(h, p). case getCertificate demo_env h p 5000 of
                     Inr c \<Rightarrow> c
                   | Inl m \<Rightarrow> errorRecord (e_now demo_env) h (Some p) m)
       (List.product ?hosts [443])) =
     [None, Some ''Connection error: connect ECONNREFUSED'', None]"
    by code_simp
  have k: "(2::nat) < length ?hosts * length [443::nat]" by simp
  have c1: "e_connect demo_env (?hosts ! (2 div length [443::nat])) ([443] ! (2 mod length [443::nat])) =
      Connected (Some cert_c)"
    by (simp add: demo_env_def)
  have c2: "p_raw cert_c = Some [0xff]"
    by (simp add: cert_c_def)
  have c3: "e_fromDer demo_env [0xff] = Inl ''Too few bytes to parse DER.''"
    by (simp add: demo_env_def)
  from pairs_spec k c1 c2 c3
  have "?rs ! 2 = rawCertData (e_now demo_env) (?hosts ! (2 div length [443::nat]))
      ([443] ! (2 mod length [443::nat])) cert_c"
    by blast
  then have "?rs ! 2 = rawCertData (e_now demo_env) ''c.example'' 443 cert_c"
    by simp
  with eq st er show ?thesis by simp
qed

section \<open>The scan API stores only the records that are not errors\<close>

lemma saveCertificate_ok:
  "host c = Some h \<Longrightarrow> port c = Some p \<Longrightarrow> \<exists>i d'. saveCertificate d c = (Inr i, d')"
  by (simp add: saveCertificate_def Let_def)

lemma saveCertificate_other_rows:
  "saveCertificate d c = (r, d') \<Longrightarrow> (host c, port c) \<noteq> (Some h, Some p) \<Longrightarrow> rows_of d' h p = rows_of d h p"
  by (auto simp: saveCertificate_def Let_def rows_of_def split: option.splits intro: filter_cong)

lemma api_save_loop_ok:
  "list_all (\<lambda>c. host c \<noteq> None \<and> port c \<noteq> None) cs \<Longrightarrow> fst (api_save_loop d cs) = None"
proof (induction cs arbitrary: d)
  case Nil
  then show ?case by simp
next
  case (Cons c cs)
  then obtain h p where "host c = Some h" "port c = Some p" by auto
  then obtain i d' where "saveCertificate d c = (Inr i, d')"
    using saveCertificate_ok by blast
  with Cons show ?case by simp
qed

lemma api_save_loop_rows:
  "list_all (\<lambda>c. status c = ''error'' \<or> (host c, port c) \<noteq> (Some h, Some p)) cs \<Longrightarrow>
   rows_of (snd (api_save_loop d cs)) h p = rows_of d h p"
proof (induction cs arbitrary: d)
  case Nil
  then show ?case by simp
next
  case (Cons c cs)
  show ?case
  proof (cases "status c = ''error''")
    case True
    with Cons show ?thesis by simp
  next
    case False
    with Cons.prems have ne: "(host c, port c) \<noteq> (Some h, Some p)" by simp
    obtain r d' where s: "saveCertificate d c = (r, d')" by (cases "saveCertificate d c")
    from saveCertificate_other_rows [OF s ne] have rows: "rows_of d' h p = rows_of d h p" .
    show ?thesis
    proof (cases r)
      case (Inl x)
      with s False rows show ?thesis by simp
    next
      case (Inr i)
      with s False rows Cons show ?thesis by simp
    qed
  qed
qed

text \<open>The loop of the handler writes the results whose status is not \<open>error\<close>, in order.\<close>

lemma api_save_loop_filter:
  "api_save_loop d cs = save_loop d (filter (\<lambda>c. status c \<noteq> ''error'') cs)"
  by (induction cs arbitrary: d) (auto split: sum.splits prod.splits)


lemma scanHosts_keys_present:
  "list_all (\<lambda>c. host c \<noteq> None \<and> port c \<noteq> None) (scanHosts e hosts ports t)"
  by (simp add: scanHosts_product list_all_iff scanPort_host_port split_def)

lemma getCertificate_no_error: "getCertificate e h p t = Inr c \<Longrightarrow> error c = None \<and> status c \<noteq> []"
  by (auto simp: getCertificate_def Let_def rawCertData_def combinedData_def parseCertificate_def
      split: tls_outcome.splits option.splits sum.splits)

lemma processResult_scanPort:
  "pr_status (processResult now r (scanPort e h t p)) = status (scanPort e h t p) \<and>
   pr_error (processResult now r (scanPort e h t p)) = error (scanPort e h t p)"
  by (auto simp: processResult_def scanPort_def errorRecord_def js_or_def truthy_def
      dest: getCertificate_message_nonempty getCertificate_no_error split: sum.splits)

lemma map_indexed_proj:
  assumes "\<And>i c. g (F i c) = G c"
  shows "map g (map (\<lambda>(i, c). F i c) (zip [0 ..< length rs] rs)) = map G rs"
proof -
  let ?zs = "zip [0 ..< length rs] rs"
  have "map g (map (\<lambda>(i, c). F i c) ?zs) = map (\<lambda>p. G (snd p)) ?zs"
    by (simp add: assms split_def comp_def)
  also have "\<dots> = map G (map snd ?zs)"
    by (simp only: map_map comp_def)
  also have "map snd ?zs = rs"
    by (simp add: map_snd_zip)
  finally show ?thesis .
qed

lemma processed_entries:
  assumes "list_all (\<lambda>c. pr_status (processResult now 0 c) = status c \<and>
                          pr_error (processResult now 0 c) = error c) rs"
  shows "map pr_status (map (\<lambda>(i, cert). processResult now (rnd i) cert) (zip [0 ..< length rs] rs)) =
           map status rs \<and>
         map pr_error (map (\<lambda>(i, cert). processResult now (rnd i) cert) (zip [0 ..< length rs] rs)) =
           map error rs"
proof -
  have "map pr_status (map (\<lambda>(i, cert). processResult now (rnd i) cert) (zip [0 ..< length rs] rs)) =
        map (\<lambda>c. pr_status (processResult now 0 c)) rs"
    by (rule map_indexed_proj) (simp add: processResult_def)
  moreover
  have "map pr_error (map (\<lambda>(i, cert). processResult now (rnd i) cert) (zip [0 ..< length rs] rs)) =
        map (\<lambda>c. pr_error (processResult now 0 c)) rs"
    by (rule map_indexed_proj) (simp add: processResult_def)
  ultimately show ?thesis using assms by (simp add: list_all_iff)
qed

text \<open>
  Claim C10. The handler of POST /api/scan leaves the database as saving, in order,
  exactly the scan results whose status is not \<open>error\<close> leaves it. The stored rows of a
  (host, port) pair that has no result other than error records are unchanged. With at
  least one host the response is the JSON answer whose entries are all the results, the
  error records included, each with its status and error message.
\<close>

theorem post_scan_saves_only_non_error:
  "snd (post_scan e rnd hostsToScan portsToScan d) =
     snd (save_loop d (filter (\<lambda>c. status c \<noteq> ''error'')
                         (scanHosts e hostsToScan portsToScan 5000))) \<and>
   (list_all (\<lambda>c. status c = ''error'' \<or> (host c, port c) \<noteq> (Some h, Some p))
      (scanHosts e hostsToScan portsToScan 5000) \<longrightarrow>
    rows_of (snd (post_scan e rnd hostsToScan portsToScan d)) h p = rows_of d h p) \<and>
   (hostsToScan \<noteq> [] \<longrightarrow>
     (\<exists>data summary. fst (post_scan e rnd hostsToScan portsToScan d) = Json data summary \<and>
        map pr_status data = map status (scanHosts e hostsToScan portsToScan 5000) \<and>
        map pr_error data = map error (scanHosts e hostsToScan portsToScan 5000) \<and>
        sm_error summary = count_status ''error'' (scanHosts e hostsToScan portsToScan 5000)))"
proof -
  let ?rs = "scanHosts e hostsToScan portsToScan 5000"
  obtain d' where loop: "api_save_loop d ?rs = (None, d')"
    using api_save_loop_ok [OF scanHosts_keys_present, of d e hostsToScan portsToScan 5000]
    by (cases "api_save_loop d ?rs") simp
  have empty: "hostsToScan = [] \<Longrightarrow> d' = d"
    using loop by (simp add: scanHosts_def)
  have snd_eq: "snd (post_scan e rnd hostsToScan portsToScan d) = d'"
    using loop empty by (simp add: post_scan_def Let_def)
  have c1: "snd (post_scan e rnd hostsToScan portsToScan d) =
     snd (save_loop d (filter (\<lambda>c. status c \<noteq> ''error'') ?rs))"
    using snd_eq loop by (simp add: api_save_loop_filter [symmetric])
  have c2: "rows_of (snd (post_scan e rnd hostsToScan portsToScan d)) h p = rows_of d h p"
    if "list_all (\<lambda>c. status c = ''error'' \<or> (host c, port c) \<noteq> (Some h, Some p)) ?rs"
    using api_save_loop_rows [OF that, of d] snd_eq loop by simp
  have all: "list_all (\<lambda>c. pr_status (processResult (e_now e) 0 c) = status c \<and>
                          pr_error (processResult (e_now e) 0 c) = error c) ?rs"
    by (simp add: scanHosts_product list_all_iff processResult_scanPort split_def)
  have c3: "\<exists>data summary. fst (post_scan e rnd hostsToScan portsToScan d) = Json data summary \<and>
        map pr_status data = map status ?rs \<and> map pr_error data = map error ?rs \<and>
        sm_error summary = count_status ''error'' ?rs"
    if "hostsToScan \<noteq> []"
    using that loop processed_entries [OF all, of rnd]
    by (simp add: post_scan_def Let_def)
  from c1 c2 c3 show ?thesis by blast
qed

theorem post_scan_saves_only_non_error_witness:
  "rows_of (snd (post_scan demo_env id [''a.example'', ''b.example''] [443] demo_db))
     ''b.example'' 443 = [row_b] \<and>
   map r_host (certificates (snd (post_scan demo_env id [''a.example'', ''b.example''] [443] demo_db))) =
     [''b.example'', ''a.example'']"
proof -
  have "list_all (\<lambda>c. status c = ''error'' \<or> (host c, port c) \<noteq> (Some ''b.example'', Some 443))
      (scanHosts demo_env [''a.example'', ''b.example''] [443] 5000)"
    by code_simp
  with post_scan_saves_only_non_error
         [of demo_env id "[''a.example'', ''b.example'']" "[443]" demo_db "''b.example''" 443]
  have "rows_of (snd (post_scan demo_env id [''a.example'', ''b.example''] [443] demo_db))
          ''b.example'' 443 = rows_of demo_db ''b.example'' 443"
    by blast
  moreover have "rows_of demo_db ''b.example'' 443 = [row_b]"
    by code_simp
  moreover have "map r_host (certificates
      (snd (post_scan demo_env id [''a.example'', ''b.example''] [443] demo_db))) =
     [''b.example'', ''a.example'']"
    by code_simp
  ultimately show ?thesis by simp
qed

section \<open>The scheduler's registry\<close>

lemma registry_ok_initial:
  "registry_ok \<lparr> activeJobs = [], timers = [], job_seq = 0, db = d, scan_log = [] \<rparr>"
  by (simp add: registry_ok_def)

lemma registry_ok_iff:
  "registry_ok w \<longleftrightarrow>
     (\<forall>t \<in> set (timers w). map_of (activeJobs w) (so_id (j_scan t)) = Some (Some t) \<and>
        j_handle t < job_seq w) \<and> distinct (map j_handle (timers w))"
  by (simp add: registry_ok_def list_all_iff)

lemma live_timers_zero_iff:
  "live_timers w i = 0 \<longleftrightarrow> (\<forall>t \<in> set (timers w). so_id (j_scan t) \<noteq> i)"
  by (auto simp: live_timers_def filter_empty_conv)

lemma cancelled_ok:
  assumes "registry_ok w" and "map_of (activeJobs w) i \<noteq> Some None"
  shows "registry_ok (cancelled i w) \<and> live_timers (cancelled i w) i = 0 \<and>
         map_of (activeJobs (cancelled i w)) i = None \<and>
         job_seq (cancelled i w) = job_seq w \<and> db (cancelled i w) = db w"
proof (cases "map_of (activeJobs w) i")
  case None
  then have c: "cancelled i w = w" by (simp add: cancelled_def)
  from assms(1) None have "\<forall>t \<in> set (timers w). so_id (j_scan t) \<noteq> i"
    by (auto simp: registry_ok_iff)
  with c None assms(1) show ?thesis by (simp add: live_timers_zero_iff)
next
  case (Some v)
  with assms(2) obtain old where old: "map_of (activeJobs w) i = Some (Some old)"
    by (cases v) auto
  then have c: "cancelled i w =
      w\<lparr> timers := cancel old (timers w), activeJobs := AList.delete i (activeJobs w) \<rparr>"
    by (simp add: cancelled_def)
  have other: "so_id (j_scan t) \<noteq> i" if "t \<in> set (cancel old (timers w))" for t
  proof
    assume "so_id (j_scan t) = i"
    moreover from that have "t \<in> set (timers w)" and ne: "j_handle t \<noteq> j_handle old"
      by (auto simp: cancel_def)
    ultimately have "t = old" using assms(1) old by (auto simp: registry_ok_iff)
    with ne show False by simp
  qed
  have "registry_ok (cancelled i w)"
    unfolding registry_ok_iff c using assms(1) other
    by (auto simp: registry_ok_iff cancel_def delete_conv' distinct_map_filter)
  moreover have "live_timers (cancelled i w) i = 0"
    using other by (simp add: live_timers_zero_iff c)
  ultimately show ?thesis by (simp add: c delete_conv')
qed

lemma scheduleJob_unfold:
  "map_of (activeJobs w) (so_id scan) \<noteq> Some None \<Longrightarrow>
   scheduleJob nx now scan w =
     (let w1 = cancelled (so_id scan) w
      in if \<not> so_active scan then Inr w1
         else
           (case (case so_frequency scan of
                    None \<Rightarrow> None
                  | Some f \<Rightarrow> map_option (Pair (rule_of f)) (nx (rule_of f) now)) of
              None \<Rightarrow> Inr (w1\<lparr> activeJobs := AList.update (so_id scan) None (activeJobs w1) \<rparr>)
            | Some (rule, nextRun) \<Rightarrow>
                (let j = \<lparr> j_handle = job_seq w1, j_rule = rule, j_scan = scan \<rparr>
                 in Inr (w1\<lparr> timers := timers w1 @ [j],
                             job_seq := Suc (job_seq w1),
                             activeJobs := AList.update (so_id scan) (Some j) (activeJobs w1),
                             db := updateScheduledScanTimes (db w1) (so_id scan)
                                     (so_lastRun scan) (Some nextRun) \<rparr>))))"
  by (cases "map_of (activeJobs w) (so_id scan)")
     (auto simp: scheduleJob_def cancelled_def Let_def split: option.splits)

lemma scheduleJob_throws_iff:
  "(\<exists>x. scheduleJob nx now scan w = Inl x) \<longleftrightarrow> map_of (activeJobs w) (so_id scan) = Some None"
  by (auto simp: scheduleJob_def Let_def split: option.splits)

lemma add_job_ok:
  assumes ok1: "registry_ok w1" and other: "\<forall>t \<in> set (timers w1). so_id (j_scan t) \<noteq> so_id scan"
    and j: "j = \<lparr> j_handle = job_seq w1, j_rule = r, j_scan = scan \<rparr>"
  shows "registry_ok (w1\<lparr> timers := timers w1 @ [j], job_seq := Suc (job_seq w1),
            activeJobs := AList.update (so_id scan) (Some j) (activeJobs w1), db := d \<rparr>)"
proof -
  from ok1 have lt: "\<forall>t \<in> set (timers w1). j_handle t < job_seq w1"
    and reg: "\<forall>t \<in> set (timers w1). map_of (activeJobs w1) (so_id (j_scan t)) = Some (Some t)"
    and dist: "distinct (map j_handle (timers w1))"
    by (simp_all add: registry_ok_iff)
  from lt have fresh: "job_seq w1 \<notin> j_handle ` set (timers w1)" by auto
  from lt have lt': "\<forall>t \<in> set (timers w1). j_handle t < Suc (job_seq w1)"
    using less_Suc_eq by blast
  show ?thesis
    unfolding registry_ok_iff using reg other dist fresh lt' j
    by (simp add: update_conv')
qed

lemma null_entry_ok:
  assumes ok1: "registry_ok w1" and other: "\<forall>t \<in> set (timers w1). so_id (j_scan t) \<noteq> i"
  shows "registry_ok (w1\<lparr> activeJobs := AList.update i None (activeJobs w1) \<rparr>)"
  using assms unfolding registry_ok_iff by (simp add: update_conv')


lemma scheduleJob_preserves:
  assumes ok: "registry_ok w" and r: "scheduleJob nx now scan w = Inr w'"
  shows "registry_ok w'"
proof -
  let ?i = "so_id scan"
  let ?w1 = "cancelled ?i w"
  from r have nn: "map_of (activeJobs w) ?i \<noteq> Some None"
    using scheduleJob_throws_iff [of nx now scan w] by auto
  from cancelled_ok [OF ok nn]
  have ok1: "registry_ok ?w1" and z: "live_timers ?w1 ?i = 0" by simp_all
  from z have other: "\<forall>t \<in> set (timers ?w1). so_id (j_scan t) \<noteq> ?i"
    by (simp add: live_timers_zero_iff)
  show ?thesis
  proof (cases "so_active scan")
    case False
    with r ok1 show ?thesis by (simp add: scheduleJob_unfold [OF nn] Let_def)
  next
    case True
    show ?thesis
    proof (cases "case so_frequency scan of
                    None \<Rightarrow> None
                  | Some f \<Rightarrow> map_option (Pair (rule_of f)) (nx (rule_of f) now)")
      case None
      with r True have "w' = ?w1\<lparr> activeJobs := AList.update ?i None (activeJobs ?w1) \<rparr>"
        by (simp add: scheduleJob_unfold [OF nn] Let_def)
      with null_entry_ok [OF ok1 other] show ?thesis by simp
    next
      case (Some rn)
      obtain rule nextRun where rn: "rn = (rule, nextRun)" by (cases rn)
      with r True Some
      have "w' = ?w1\<lparr> timers := timers ?w1 @ [\<lparr> j_handle = job_seq ?w1, j_rule = rule, j_scan = scan \<rparr>],
                 job_seq := Suc (job_seq ?w1),
                 activeJobs := AList.update ?i
                   (Some \<lparr> j_handle = job_seq ?w1, j_rule = rule, j_scan = scan \<rparr>) (activeJobs ?w1),
                 db := updateScheduledScanTimes (db ?w1) ?i (so_lastRun scan) (Some nextRun) \<rparr>"
        by (simp add: scheduleJob_unfold [OF nn] Let_def)
      with add_job_ok [OF ok1 other refl] show ?thesis by simp
    qed
  qed
qed







section \<open>Running a scheduled scan at once\<close>

text \<open>
  Claim C9. When the table of scheduled scans has no row with the given id, runScanNow
  rejects with the not-found error and the state is the one it started from: no batch
  scan was run, no certificate row written, and no run time updated.
\<close>

theorem runScanNow_not_found:
  assumes "list_all (\<lambda>r. s_id r \<noteq> i) (scheduled_scans (db w))"
  shows "runScanNow e i w = (Inl (ScanNotFound i), w) \<and>
         message (ScanNotFound i) = ''Scheduled scan with ID '' @ show_nat i @ '' not found''"
proof -
  from assms have "find (\<lambda>r. s_id r = i) (scheduled_scans (db w)) = None"
    by (simp add: find_None_iff list_all_iff)
  then show ?thesis by (simp add: runScanNow_def getScheduledScanById_def message_def)
qed

theorem runScanNow_not_found_witness:
  "runScanNow demo_env 8 demo_world = (Inl (ScanNotFound 8), demo_world) \<and>
   message (ScanNotFound 8) = ''Scheduled scan with ID 8 not found''"
proof -
  have "list_all (\<lambda>r. s_id r \<noteq> 8) (scheduled_scans (db demo_world))"
    by (simp add: demo_world_def demo_db_def scan_7_def)
  from runScanNow_not_found [OF this, of demo_env]
  have "runScanNow demo_env 8 demo_world = (Inl (ScanNotFound 8), demo_world)" by simp
  moreover have "message (ScanNotFound 8) = ''Scheduled scan with ID 8 not found''"
    by code_simp
  ultimately show ?thesis by simp
qed

lemma save_loop_scans: "scheduled_scans (snd (save_loop d cs)) = scheduled_scans d"
  by (induction cs arbitrary: d)
     (auto simp: saveCertificate_def Let_def split: option.splits sum.splits prod.splits)

lemma runScanNow_times:
  assumes "getScheduledScanById (db w) i = Some scan" and "runScanNow e i w = (Inr rs, w')"
  shows "scheduled_scans (db w') =
           map (\<lambda>r. if s_id r = i then r\<lparr> s_last_run := Some (e_now e), s_next_run := None \<rparr> else r)
             (scheduled_scans (db w))"
proof -
  from assms(1) obtain r where "find (\<lambda>r. s_id r = i) (scheduled_scans (db w)) = Some r"
    and scan: "scan = row_object r"
    by (auto simp: getScheduledScanById_def)
  then have "s_id r = i" by (auto simp: find_Some_iff)
  with scan have id: "so_id scan = i" and nr: "so_nextRun scan = None"
    by (simp_all add: row_object_def)
  obtain x d' where sl: "save_loop (db w) (scanHosts e (so_hosts scan) (so_ports scan) 5000) = (x, d')"
    by (cases "save_loop (db w) (scanHosts e (so_hosts scan) (so_ports scan) 5000)")
  from save_loop_scans [of "db w" "scanHosts e (so_hosts scan) (so_ports scan) 5000"] sl
  have "scheduled_scans d' = scheduled_scans (db w)" by simp
  with assms sl id nr show ?thesis
    by (auto simp: runScanNow_def Let_def updateScheduledScanTimes_def split: option.splits)
qed

text \<open>
  Claim C6 asks that runScanNow store \<open>lastRun\<close> and leave the stored \<open>nextRun\<close> as it
  was. The code on scan 7, stored with next run day 1001, run at day 1000: afterwards
  the stored last run is day 1000 and the stored next run is NULL. runScanNow passes
  \<open>scan.nextRun\<close>, a property the row object of the database does not have (its column
  is \<open>next_run\<close>).
\<close>

theorem runScanNow_clears_next_run:
  "map s_next_run (scheduled_scans (db demo_world)) = [Some (day 1001)] \<and>
   map s_next_run (scheduled_scans (db (snd (runScanNow demo_env 7 demo_world)))) = [None] \<and>
   map s_last_run (scheduled_scans (db (snd (runScanNow demo_env 7 demo_world)))) =
     [Some (e_now demo_env)]"
  by code_simp


end
